theory Spec2Isabelle
  imports Complex_Main
begin

section \<open>Campus bus tracker: live location and ETA engine\<close>

text \<open>
  A shallow embedding of the backend's geo math and ETA estimator
  (\<^verbatim>\<open>backend/utils/etaCalculator.js\<close>), the stop locator (\<^verbatim>\<open>models/BusStop.js\<close>),
  the live position store (\<^verbatim>\<open>models/LiveBusLocation.js\<close> and
  \<^verbatim>\<open>controllers/locationController.js\<close>) and the socket hub
  (\<^verbatim>\<open>services/socketService.js\<close>).

  JavaScript numbers are modelled as real numbers: there is no rounding, no NaN and no
  Infinity (the one \<^verbatim>\<open>Infinity\<close> of the source, the initial \<^verbatim>\<open>minDistance\<close>, is
  \<open>None\<close>). The database is the configured one, SQLite behind Sequelize. Timestamps are milliseconds, and \<^verbatim>\<open>Date.now()\<close> is the argument \<open>now\<close>.
  A value that may be \<^verbatim>\<open>null\<close> or \<^verbatim>\<open>undefined\<close> is an \<open>option\<close>.
\<close>

subsection \<open>Geo math and the ETA estimator\<close>

record coord =
  lat :: real
  lng :: real

definition toRadians :: "real \<Rightarrow> real" where
  "toRadians degrees = degrees * (pi / 180)"

text \<open>\<^verbatim>\<open>Math.atan2(y, x)\<close> on real arguments.\<close>

definition Math_atan2 :: "real \<Rightarrow> real \<Rightarrow> real" where
  "Math_atan2 y x =
     (if 0 < x then arctan (y / x)
      else if x < 0 then (if 0 \<le> y then arctan (y / x) + pi else arctan (y / x) - pi)
      else if 0 < y then pi / 2
      else if y < 0 then - (pi / 2)
      else 0)"

text \<open>\<^verbatim>\<open>Math.round(x)\<close>: the nearest integer, a half rounding up.\<close>

definition Math_round :: "real \<Rightarrow> int" where
  "Math_round x = \<lfloor>x + 1 / 2\<rfloor>"

text \<open>
  \<^verbatim>\<open>calculateDistance\<close>, the haversine formula, in real arithmetic. Over the reals the
  haversine term \<open>a\<close> lies between 0 and 1. In the double arithmetic of the program it
  can round above 1 for points that are nearly antipodal (the code does not clamp it);
  \<^verbatim>\<open>Math.sqrt(1 - a)\<close> is then NaN and so is the result. The definition gives the
  value of the code, up to rounding, where the code returns a number; the same holds for
  the two \<^verbatim>\<open>calculateDistanceTo\<close> methods below.
\<close>

definition calculateDistance :: "coord \<Rightarrow> coord \<Rightarrow> real" where
  "calculateDistance coord1 coord2 =
     (let R = 6371;
          lat1Rad = toRadians (lat coord1);
          lat2Rad = toRadians (lat coord2);
          deltaLatRad = toRadians (lat coord2 - lat coord1);
          deltaLngRad = toRadians (lng coord2 - lng coord1);
          a = sin (deltaLatRad / 2) * sin (deltaLatRad / 2) +
              cos lat1Rad * cos lat2Rad *
              sin (deltaLngRad / 2) * sin (deltaLngRad / 2);
          c = 2 * Math_atan2 (sqrt a) (sqrt (1 - a))
      in R * c)"

datatype confidence_level = High | Medium | Low

datatype eta_status = Arriving

text \<open>
  The object the estimator returns. The branches of the source do not set the same
  keys: a key that a branch leaves out is \<open>None\<close>.
\<close>

record eta_data =
  eta :: "real option"
  durationMinutes :: int
  distanceKm :: "real option"
  speedKmh :: "real option"
  isRealtime :: bool
  confidence :: confidence_level
  status :: "eta_status option"

text \<open>
  \<^verbatim>\<open>calculateETA(distanceKm, speedKmh, bufferMinutes = 2)\<close>. The parameter
  \<^verbatim>\<open>speedKmh\<close> is overwritten by 25 when it is missing or not positive, before
  \<^verbatim>\<open>isRealtime\<close> and \<^verbatim>\<open>confidence\<close> are computed from it.
\<close>

definition calculateETA :: "real \<Rightarrow> real \<Rightarrow> real \<Rightarrow> real \<Rightarrow> eta_data" where
  "calculateETA now distance speed bufferMinutes =
     (if distance = 0 \<or> distance \<le> 0 then
        \<lparr>eta = None, durationMinutes = 0, distanceKm = None, speedKmh = None,
         isRealtime = False, confidence = Low, status = None\<rparr>
      else
        (let speed' = (if speed = 0 \<or> speed \<le> 0 then 25 else speed);
             duration = (distance / speed') * 60;
             totalMinutes = duration + bufferMinutes
         in \<lparr>eta = Some (now + totalMinutes * 60 * 1000),
             durationMinutes = Math_round totalMinutes,
             distanceKm = Some (real_of_int (Math_round (distance * 100)) / 100),
             speedKmh = Some (real_of_int (Math_round (speed' * 100)) / 100),
             isRealtime = (0 < speed'),
             confidence = (if 5 < speed' then High else Medium),
             status = None\<rparr>))"

text \<open>
  The \<^verbatim>\<open>forEach\<close> of \<^verbatim>\<open>calculateSmoothedETA\<close>: the sample at index \<open>i\<close> has weight
  \<open>i + 1\<close>; the accumulator is (\<^verbatim>\<open>weightedSum\<close>, \<^verbatim>\<open>totalWeight\<close>).
\<close>

fun weightedLoop :: "real list \<Rightarrow> nat \<Rightarrow> real \<times> real \<Rightarrow> real \<times> real" where
  "weightedLoop [] index acc = acc"
| "weightedLoop (speed # rest) index (weightedSum, totalWeight) =
     (let weight = real (index + 1)
      in weightedLoop rest (index + 1) (weightedSum + speed * weight, totalWeight + weight))"

definition validSpeeds :: "real list \<Rightarrow> real list" where
  "validSpeeds speedSamples = filter (\<lambda>speed. 0 < speed \<and> speed < 120) speedSamples"

definition averageSpeed :: "real list \<Rightarrow> real" where
  "averageSpeed valid = (case weightedLoop valid 0 (0, 0) of
                           (weightedSum, totalWeight) \<Rightarrow> weightedSum / totalWeight)"

text \<open>
  \<^verbatim>\<open>calculateSmoothedETA(speedSamples, distanceKm)\<close>; a \<^verbatim>\<open>null\<close> sample array takes
  the branch of the empty one.
\<close>

definition calculateSmoothedETA :: "real \<Rightarrow> real list \<Rightarrow> real \<Rightarrow> eta_data" where
  "calculateSmoothedETA now speedSamples distance =
     (if speedSamples = [] \<or> distance = 0 then calculateETA now distance 0 2
      else if validSpeeds speedSamples = [] then calculateETA now distance 0 2
      else calculateETA now distance (averageSpeed (validSpeeds speedSamples)) 2)"

text \<open>
  \<^verbatim>\<open>estimateTimeToStop(busLocation, stopLocation, currentSpeed, recentSpeeds = [])\<close>.
  A missing \<^verbatim>\<open>currentSpeed\<close> fails the test \<^verbatim>\<open>speed > 0\<close> of the filter, as 0 does,
  so it enters the sample list as 0.
\<close>

definition estimateTimeToStop ::
  "real \<Rightarrow> coord \<Rightarrow> coord \<Rightarrow> real option \<Rightarrow> real list \<Rightarrow> eta_data" where
  "estimateTimeToStop now busLocation stopLocation currentSpeed recentSpeeds =
     (let distance = calculateDistance busLocation stopLocation
      in if distance < 0.1 then
           \<lparr>eta = Some (now + 60 * 1000), durationMinutes = 1, distanceKm = Some distance,
            speedKmh = None, isRealtime = True, confidence = High,
            status = Some Arriving\<rparr>
         else
           (let speedSamples = (if recentSpeeds \<noteq> [] then recentSpeeds
                                else [case currentSpeed of None \<Rightarrow> 0 | Some v \<Rightarrow> v])
            in calculateSmoothedETA now speedSamples distance))"

text \<open>
  The weighted average in the words of the specification: the i-th sample (1-indexed,
  oldest first) has weight i, and the average is the weighted sum over the sum of the
  weights.
\<close>

definition spec_weighted_average :: "real list \<Rightarrow> real" where
  "spec_weighted_average xs =
     (\<Sum>i<length xs. xs ! i * real (i + 1)) / (\<Sum>i<length xs. real (i + 1))"


subsection \<open>Stop locator\<close>

type_synonym uuid = string

text \<open>A row of \<^verbatim>\<open>bus_stops\<close> (the columns the engine reads).\<close>

record BusStop =
  stop_id :: uuid
  stop_routeId :: uuid
  stop_stopOrder :: int
  stop_latitude :: real
  stop_longitude :: real

definition BusStop_calculateDistanceTo :: "BusStop \<Rightarrow> real \<Rightarrow> real \<Rightarrow> real" where
  "BusStop_calculateDistanceTo this lat' lng' =
     (let R = 6371;
          dLat = toRadians (lat' - stop_latitude this);
          dLng = toRadians (lng' - stop_longitude this);
          a = sin (dLat / 2) * sin (dLat / 2) +
              cos (toRadians (stop_latitude this)) * cos (toRadians lat') *
              sin (dLng / 2) * sin (dLng / 2);
          c = 2 * Math_atan2 (sqrt a) (sqrt (1 - a))
      in R * c * 1000)"

text \<open>
  \<^verbatim>\<open>findAll({ where: { routeId }, order: [['stopOrder', 'ASC']] })\<close> over the table
  \<open>stops\<close>.
\<close>

definition BusStop_findAll_routeId :: "BusStop list \<Rightarrow> uuid \<Rightarrow> BusStop list" where
  "BusStop_findAll_routeId stops routeId =
     sort_key stop_stopOrder (filter (\<lambda>s. stop_routeId s = routeId) stops)"

text \<open>
  The \<^verbatim>\<open>forEach\<close> of \<^verbatim>\<open>findNextStop\<close>; the accumulator is
  (\<^verbatim>\<open>nextStop\<close>, \<^verbatim>\<open>minDistance\<close>), where the distance \<open>None\<close> is \<^verbatim>\<open>Infinity\<close>.
\<close>

fun findNextStop_loop ::
  "BusStop list \<Rightarrow> real \<Rightarrow> real \<Rightarrow> BusStop option \<times> real option \<Rightarrow> BusStop option \<times> real option"
where
  "findNextStop_loop [] currentLat currentLng acc = acc"
| "findNextStop_loop (stop # rest) currentLat currentLng (nextStop, minDistance) =
     (let distance = BusStop_calculateDistanceTo stop currentLat currentLng
      in if (case minDistance of None \<Rightarrow> True | Some m \<Rightarrow> distance < m) \<and> 100 < distance
         then findNextStop_loop rest currentLat currentLng (Some stop, Some distance)
         else findNextStop_loop rest currentLat currentLng (nextStop, minDistance))"

definition findNextStop :: "BusStop list \<Rightarrow> uuid \<Rightarrow> real \<Rightarrow> real \<Rightarrow> BusStop option" where
  "findNextStop stops routeId currentLat currentLng =
     (let found = BusStop_findAll_routeId stops routeId
      in if found = [] then None
         else fst (findNextStop_loop found currentLat currentLng (None, None)))"

subsection \<open>The tables and the ORM calls\<close>

record Bus =
  bus_id :: uuid
  bus_driverId :: "uuid option"
  bus_isActive :: bool
  bus_currentRouteId :: "uuid option"

record LiveBusLocation =
  live_id :: uuid
  live_busId :: uuid
  live_driverId :: uuid
  live_latitude :: real
  live_longitude :: real
  live_speedKmh :: "real option"
  live_heading :: "real option"
  live_accuracyMeters :: "real option"
  live_isLocationSharing :: bool
  live_currentRouteId :: "uuid option"
  live_nextStopId :: "uuid option"
  live_distanceToNextStop :: "real option"
  live_etaToNextStop :: "real option"
  live_tripStartedAt :: "real option"

datatype trip_status = Active | Completed | Cancelled

record TripLog =
  trip_id :: uuid
  trip_busId :: uuid
  trip_driverId :: uuid
  trip_routeId :: uuid
  trip_startedAt :: real
  trip_endedAt :: "real option"
  trip_totalDistanceKm :: "real option"
  trip_totalDurationMinutes :: "int option"
  trip_averageSpeedKmh :: "real option"
  trip_status :: trip_status

record LocationHistory =
  hist_tripLogId :: uuid
  hist_busId :: uuid
  hist_latitude :: real
  hist_longitude :: real
  hist_speedKmh :: "real option"
  hist_heading :: "real option"
  hist_accuracyMeters :: "real option"

text \<open>
  The database: one list of rows per table. \<open>routes\<close> holds the ids of the rows of
  \<^verbatim>\<open>routes\<close>. The \<^verbatim>\<open>users\<close> table is not modelled: the driver of a request is an
  authenticated user.
\<close>

record database =
  buses :: "Bus list"
  routes :: "uuid list"
  bus_stops :: "BusStop list"
  live_bus_locations :: "LiveBusLocation list"
  trip_logs :: "TripLog list"
  location_history :: "LocationHistory list"

datatype sequelize_error =
    SequelizeValidationError
  | SequelizeUniqueConstraintError
  | SequelizeForeignKeyConstraintError
  | Error string

text \<open>A JavaScript string is truthy when it is present and not empty.\<close>

definition truthy :: "string option \<Rightarrow> bool" where
  "truthy v = (case v of None \<Rightarrow> False | Some s \<Rightarrow> s \<noteq> [])"

definition Bus_findByPk :: "database \<Rightarrow> uuid \<Rightarrow> Bus option" where
  "Bus_findByPk db busId = find (\<lambda>b. bus_id b = busId) (buses db)"

definition Bus_save :: "database \<Rightarrow> Bus \<Rightarrow> database" where
  "Bus_save db bus =
     db\<lparr>buses := map (\<lambda>b. if bus_id b = bus_id bus then bus else b) (buses db)\<rparr>"

definition Route_findByPk :: "database \<Rightarrow> uuid \<Rightarrow> uuid option" where
  "Route_findByPk db routeId = find (\<lambda>r. r = routeId) (routes db)"

definition BusStop_findByPk :: "database \<Rightarrow> uuid \<Rightarrow> BusStop option" where
  "BusStop_findByPk db stopId = find (\<lambda>s. stop_id s = stopId) (bus_stops db)"

text \<open>
  \<^verbatim>\<open>LiveBusLocation.findByBusId\<close>: \<^verbatim>\<open>findOne({ where: { busId, isLocationSharing: true } })\<close>.
  A row whose sharing flag is cleared is not found.
\<close>

definition LiveBusLocation_findByBusId :: "database \<Rightarrow> uuid \<Rightarrow> LiveBusLocation option" where
  "LiveBusLocation_findByBusId db busId =
     find (\<lambda>l. live_busId l = busId \<and> live_isLocationSharing l) (live_bus_locations db)"

text \<open>
  \<^verbatim>\<open>TripLog.create\<close>. The model declares \<^verbatim>\<open>routeId\<close> with \<^verbatim>\<open>allowNull: false\<close> and a
  reference to \<^verbatim>\<open>routes\<close>: a missing route id is rejected by the validation, an unknown one
  by the foreign key.
\<close>

definition TripLog_create ::
  "database \<Rightarrow> uuid \<Rightarrow> uuid \<Rightarrow> uuid \<Rightarrow> uuid option \<Rightarrow> real
     \<Rightarrow> sequelize_error + (TripLog \<times> database)" where
  "TripLog_create db newId busId driverId routeId startedAt =
     (case routeId of
        None \<Rightarrow> Inl SequelizeValidationError
      | Some r \<Rightarrow>
          if Bus_findByPk db busId = None \<or> Route_findByPk db r = None
          then Inl SequelizeForeignKeyConstraintError
          else
            (let trip = \<lparr>trip_id = newId, trip_busId = busId, trip_driverId = driverId,
                         trip_routeId = r, trip_startedAt = startedAt, trip_endedAt = None,
                         trip_totalDistanceKm = None, trip_totalDurationMinutes = None,
                         trip_averageSpeedKmh = None, trip_status = Active\<rparr>
             in Inr (trip, db\<lparr>trip_logs := trip_logs db @ [trip]\<rparr>)))"

definition TripLog_save :: "database \<Rightarrow> TripLog \<Rightarrow> database" where
  "TripLog_save db trip =
     db\<lparr>trip_logs := map (\<lambda>t. if trip_id t = trip_id trip then trip else t) (trip_logs db)\<rparr>"

text \<open>
  \<^verbatim>\<open>TripLog.prototype.endTrip(endData = {})\<close>, called without argument: the two
  tests on \<^verbatim>\<open>endData\<close> are false.
\<close>

definition TripLog_endTrip :: "real \<Rightarrow> database \<Rightarrow> TripLog \<Rightarrow> sequelize_error + database" where
  "TripLog_endTrip now db this =
     (if trip_status this \<noteq> Active then Inl (Error ''Trip is not active'')
      else
        (let duration = Math_round ((now - trip_startedAt this) / (1000 * 60));
             this1 = this\<lparr>trip_endedAt := Some now, trip_status := Completed,
                          trip_totalDurationMinutes := Some duration\<rparr>;
             this2 = (case trip_totalDistanceKm this1 of
                        None \<Rightarrow> this1
                      | Some totalKm \<Rightarrow>
                          if totalKm = 0 \<or> duration = 0 then this1
                          else this1\<lparr>trip_averageSpeedKmh :=
                                 Some (real_of_int (Math_round (totalKm / (real_of_int duration / 60) * 100)) / 100)\<rparr>)
         in Inr (TripLog_save db this2)))"

text \<open>
  \<^verbatim>\<open>LiveBusLocation.create\<close> as \<^verbatim>\<open>startLocationSharing\<close> calls it; \<open>newId\<close> is the
  generated primary key. The table has a unique index on \<^verbatim>\<open>bus_id\<close>: a second row
  for a bus is rejected, whatever the sharing flag of the first.
\<close>

definition LiveBusLocation_create ::
  "database \<Rightarrow> uuid \<Rightarrow> uuid \<Rightarrow> uuid \<Rightarrow> uuid option \<Rightarrow> real
     \<Rightarrow> sequelize_error + (LiveBusLocation \<times> database)" where
  "LiveBusLocation_create db newId busId driverId routeId startedAt =
     (if find (\<lambda>l. live_busId l = busId \<or> live_id l = newId) (live_bus_locations db) \<noteq> None
      then Inl SequelizeUniqueConstraintError
      else if Bus_findByPk db busId = None \<or>
              (case routeId of None \<Rightarrow> False | Some r \<Rightarrow> Route_findByPk db r = None)
      then Inl SequelizeForeignKeyConstraintError
      else
        (let location = \<lparr>live_id = newId, live_busId = busId, live_driverId = driverId,
                          live_latitude = 0, live_longitude = 0, live_speedKmh = None,
                          live_heading = None, live_accuracyMeters = None,
                          live_isLocationSharing = True, live_currentRouteId = routeId,
                          live_nextStopId = None, live_distanceToNextStop = None,
                          live_etaToNextStop = None, live_tripStartedAt = Some startedAt\<rparr>
         in Inr (location, db\<lparr>live_bus_locations := live_bus_locations db @ [location]\<rparr>)))"

text \<open>
  \<^verbatim>\<open>save()\<close> of an instance that is not new: \<^verbatim>\<open>UPDATE ... WHERE id = this.id\<close>. The
  row with the instance's primary key takes the instance's values; when no row has that
  key, nothing is written and nothing is raised.
\<close>

definition LiveBusLocation_save :: "database \<Rightarrow> LiveBusLocation \<Rightarrow> database" where
  "LiveBusLocation_save db location =
     db\<lparr>live_bus_locations :=
          map (\<lambda>l. if live_id l = live_id location then location else l)
              (live_bus_locations db)\<rparr>"

text \<open>
  \<^verbatim>\<open>LocationHistory.create\<close>. The model declares \<^verbatim>\<open>tripLogId\<close> with
  \<^verbatim>\<open>allowNull: false\<close> and a reference to \<^verbatim>\<open>trip_logs\<close>.
\<close>

definition LocationHistory_create ::
  "database \<Rightarrow> uuid option \<Rightarrow> uuid \<Rightarrow> real \<Rightarrow> real \<Rightarrow> real option \<Rightarrow> real option \<Rightarrow> real option
     \<Rightarrow> sequelize_error + database" where
  "LocationHistory_create db tripLogId busId latitude longitude speed heading accuracy =
     (case tripLogId of
        None \<Rightarrow> Inl SequelizeValidationError
      | Some t \<Rightarrow>
          if find (\<lambda>trip. trip_id trip = t) (trip_logs db) = None \<or> Bus_findByPk db busId = None
          then Inl SequelizeForeignKeyConstraintError
          else Inr (db\<lparr>location_history := location_history db @
                      [\<lparr>hist_tripLogId = t, hist_busId = busId, hist_latitude = latitude,
                        hist_longitude = longitude, hist_speedKmh = speed,
                        hist_heading = heading, hist_accuracyMeters = accuracy\<rparr>]\<rparr>))"

subsection \<open>The live location row: next stop and ETA\<close>

definition LiveBusLocation_calculateDistanceTo :: "LiveBusLocation \<Rightarrow> real \<Rightarrow> real \<Rightarrow> real" where
  "LiveBusLocation_calculateDistanceTo this lat' lng' =
     (let R = 6371;
          dLat = toRadians (lat' - live_latitude this);
          dLng = toRadians (lng' - live_longitude this);
          a = sin (dLat / 2) * sin (dLat / 2) +
              cos (toRadians (live_latitude this)) * cos (toRadians lat') *
              sin (dLng / 2) * sin (dLng / 2);
          c = 2 * Math_atan2 (sqrt a) (sqrt (1 - a))
      in R * c * 1000)"

text \<open>
  \<^verbatim>\<open>LiveBusLocation.prototype.updateETA\<close>, on the instance \<open>this\<close>; the instance is
  returned. The reads of this model do not fail, so the \<^verbatim>\<open>catch\<close> is not reached.
\<close>

definition updateETA :: "real \<Rightarrow> database \<Rightarrow> LiveBusLocation \<Rightarrow> LiveBusLocation" where
  "updateETA now db this =
     (case (if truthy (live_nextStopId this) then live_nextStopId this else None) of
        None \<Rightarrow> this\<lparr>live_etaToNextStop := None\<rparr>
      | Some stopId \<Rightarrow>
         (case live_speedKmh this of
            None \<Rightarrow> this\<lparr>live_etaToNextStop := None\<rparr>
          | Some speed \<Rightarrow>
              if speed \<le> 0 then this\<lparr>live_etaToNextStop := None\<rparr>
              else
                (case BusStop_findByPk db stopId of
                   None \<Rightarrow> this\<lparr>live_etaToNextStop := None\<rparr>
                 | Some nextStop \<Rightarrow>
                     (let d = LiveBusLocation_calculateDistanceTo this
                                (stop_latitude nextStop) (stop_longitude nextStop);
                          this1 = this\<lparr>live_distanceToNextStop := Some d\<rparr>;
                          km = d / 1000
                      in if 0 < speed
                         then (let etaMinutes = (km / speed) * 60
                               in this1\<lparr>live_etaToNextStop := Some (now + etaMinutes * 60 * 1000)\<rparr>)
                         else this1\<lparr>live_etaToNextStop := None\<rparr>))))"

text \<open>
  \<^verbatim>\<open>LiveBusLocation.prototype.updateNextStop\<close>. When the lookup finds no stop, the
  instance is returned as it is: \<^verbatim>\<open>updateETA\<close> is called only in the branch
  \<^verbatim>\<open>if (nextStop)\<close>.
\<close>

definition updateNextStop :: "real \<Rightarrow> database \<Rightarrow> LiveBusLocation \<Rightarrow> LiveBusLocation" where
  "updateNextStop now db this =
     (if \<not> truthy (live_currentRouteId this) then this
      else
        (case live_currentRouteId this of
           None \<Rightarrow> this
         | Some routeId \<Rightarrow>
            (case findNextStop (bus_stops db) routeId (live_latitude this) (live_longitude this) of
               None \<Rightarrow> this
             | Some nextStop \<Rightarrow> updateETA now db (this\<lparr>live_nextStopId := Some (stop_id nextStop)\<rparr>))))"

text \<open>The \<^verbatim>\<open>locationData\<close> object that the controller passes to the upsert.\<close>

record locationData =
  ld_latitude :: real
  ld_longitude :: real
  ld_speedKmh :: real
  ld_heading :: "real option"
  ld_accuracyMeters :: "real option"
  ld_driverId :: uuid
  ld_currentRouteId :: "uuid option"
  ld_isLocationSharing :: bool

text \<open>
  \<^verbatim>\<open>LiveBusLocation.upsert({ busId, ...locationData }, { returning: true })\<close> on the
  configured store (SQLite). The statement is an insert that, on a conflict with the
  unique index on \<^verbatim>\<open>bus_id\<close>, updates the columns that were passed: the stored row of
  the bus takes the given values and keeps its primary key and its other columns, and a
  key whose value is \<^verbatim>\<open>undefined\<close> is not written. The instance that is returned is
  not read back from the table: it is the one built from the passed values, with a newly
  generated primary key \<open>newId\<close> and every other attribute unset, and the flag
  \<^verbatim>\<open>created\<close> is \<^verbatim>\<open>null\<close> (\<open>None\<close>). Without a row for the bus, the built instance
  is inserted.
\<close>

definition LiveBusLocation_upsert ::
  "database \<Rightarrow> uuid \<Rightarrow> uuid \<Rightarrow> locationData \<Rightarrow> LiveBusLocation \<times> bool option \<times> database" where
  "LiveBusLocation_upsert db newId busId values =
     (let instance = \<lparr>live_id = newId, live_busId = busId, live_driverId = ld_driverId values,
                       live_latitude = ld_latitude values, live_longitude = ld_longitude values,
                       live_speedKmh = Some (ld_speedKmh values),
                       live_heading = ld_heading values,
                       live_accuracyMeters = ld_accuracyMeters values,
                       live_isLocationSharing = ld_isLocationSharing values,
                       live_currentRouteId = ld_currentRouteId values, live_nextStopId = None,
                       live_distanceToNextStop = None, live_etaToNextStop = None,
                       live_tripStartedAt = None\<rparr>
      in case find (\<lambda>l. live_busId l = busId) (live_bus_locations db) of
           Some row \<Rightarrow>
             (instance, None,
              db\<lparr>live_bus_locations :=
                   map (\<lambda>l. if live_busId l = busId
                             then l\<lparr>live_latitude := ld_latitude values,
                                    live_longitude := ld_longitude values,
                                    live_speedKmh := Some (ld_speedKmh values),
                                    live_heading := (case ld_heading values of
                                                       None \<Rightarrow> live_heading l
                                                     | Some h \<Rightarrow> Some h),
                                    live_accuracyMeters := (case ld_accuracyMeters values of
                                                       None \<Rightarrow> live_accuracyMeters l
                                                     | Some a \<Rightarrow> Some a),
                                    live_driverId := ld_driverId values,
                                    live_currentRouteId := ld_currentRouteId values,
                                    live_isLocationSharing := ld_isLocationSharing values\<rparr>
                             else l)
                       (live_bus_locations db)\<rparr>)
         | None \<Rightarrow>
             (instance, None, db\<lparr>live_bus_locations := live_bus_locations db @ [instance]\<rparr>))"

text \<open>
  The static \<^verbatim>\<open>LiveBusLocation.updateLocation(busId, locationData)\<close>: upsert, then,
  when \<^verbatim>\<open>!created\<close> (the flag is \<^verbatim>\<open>null\<close> or \<^verbatim>\<open>false\<close>), \<^verbatim>\<open>updateNextStop\<close> and
  \<^verbatim>\<open>save\<close> on the returned instance. The save is keyed by the instance's new primary
  key, so after an update of the bus's row it reaches no row: the next stop, the
  distance and the ETA are computed on the instance and not stored.
\<close>

definition LiveBusLocation_updateLocation ::
  "real \<Rightarrow> database \<Rightarrow> uuid \<Rightarrow> uuid \<Rightarrow> locationData \<Rightarrow> LiveBusLocation \<times> database" where
  "LiveBusLocation_updateLocation now db newId busId values =
     (case LiveBusLocation_upsert db newId busId values of
        (location, created, db1) \<Rightarrow>
          if created \<noteq> Some True
          then (let location' = updateNextStop now db1 location
                in (location', LiveBusLocation_save db1 location'))
          else (location, db1))"

subsection \<open>The socket hub\<close>

type_synonym socket_id = string

text \<open>The fields of a socket that the hub reads: \<^verbatim>\<open>socket.id\<close> and \<^verbatim>\<open>socket.userId\<close>.\<close>

record socket =
  sock_id :: socket_id
  sock_userId :: uuid

datatype payload =
    SharingStartedData uuid uuid uuid
  | SharingStoppedData uuid uuid
  | LocationUpdateData uuid LiveBusLocation
  | BusStatusData uuid bool
  | SubscribedData uuid
  | UnsubscribedData uuid

text \<open>One \<^verbatim>\<open>socket.emit(event, data)\<close>: the receiving socket, the event and the data.\<close>

type_synonym delivery = "socket_id \<times> string \<times> payload"

text \<open>
  The state of \<^verbatim>\<open>SocketService\<close>. \<open>io\<close> is \<open>None\<close> before \<^verbatim>\<open>init\<close> and otherwise
  holds the ids of the sockets connected to the server. A \<^verbatim>\<open>Map\<close> is an association
  list in insertion order, a \<^verbatim>\<open>Set\<close> a list without duplicates.
\<close>

record SocketService =
  io :: "socket_id list option"
  connectedUsers :: "(socket_id \<times> uuid) list"
  busSubscribers :: "(uuid \<times> socket_id list) list"

definition Set_add :: "'a list \<Rightarrow> 'a \<Rightarrow> 'a list" where
  "Set_add s x = (if x \<in> set s then s else s @ [x])"

definition Set_delete :: "'a list \<Rightarrow> 'a \<Rightarrow> 'a list" where
  "Set_delete s x = removeAll x s"

definition Map_has :: "('k \<times> 'v) list \<Rightarrow> 'k \<Rightarrow> bool" where
  "Map_has m k = (map_of m k \<noteq> None)"

definition Map_delete :: "('k \<times> 'v) list \<Rightarrow> 'k \<Rightarrow> ('k \<times> 'v) list" where
  "Map_delete m k = filter (\<lambda>(k', v). k' \<noteq> k) m"

text \<open>The value stored under a key is replaced by its image (a \<^verbatim>\<open>Set\<close> mutated in place).\<close>

definition Map_modify :: "('k \<times> 'v) list \<Rightarrow> 'k \<Rightarrow> ('v \<Rightarrow> 'v) \<Rightarrow> ('k \<times> 'v) list" where
  "Map_modify m k f = map (\<lambda>(k', v). if k' = k then (k', f v) else (k', v)) m"

text \<open>\<^verbatim>\<open>emitToAll\<close>: \<^verbatim>\<open>io.emit\<close> reaches every connected socket.\<close>

definition emitToAll :: "SocketService \<Rightarrow> string \<Rightarrow> payload \<Rightarrow> delivery list" where
  "emitToAll hub event data =
     (case io hub of
        None \<Rightarrow> []
      | Some sockets \<Rightarrow> map (\<lambda>s. (s, event, data)) sockets)"

definition emitToBusSubscribers :: "SocketService \<Rightarrow> uuid \<Rightarrow> string \<Rightarrow> payload \<Rightarrow> delivery list" where
  "emitToBusSubscribers hub busId event data =
     (case io hub of
        None \<Rightarrow> []
      | Some sockets \<Rightarrow>
          (case map_of (busSubscribers hub) busId of
             None \<Rightarrow> []
           | Some subscribers \<Rightarrow>
               map (\<lambda>s. (s, event, data)) (filter (\<lambda>s. s \<in> set sockets) subscribers)))"

text \<open>\<^verbatim>\<open>sendBusStatus\<close>: the snapshot sent to a new subscriber.\<close>

definition sendBusStatus :: "database \<Rightarrow> socket \<Rightarrow> uuid \<Rightarrow> delivery list" where
  "sendBusStatus db sock busId =
     (case LiveBusLocation_findByBusId db busId of
        Some location \<Rightarrow> [(sock_id sock, ''busStatus'', BusStatusData busId (live_isLocationSharing location))]
      | None \<Rightarrow> [(sock_id sock, ''busStatus'', BusStatusData busId False)])"

text \<open>
  \<^verbatim>\<open>subscribeToBus\<close>. The snapshot is sent after an \<^verbatim>\<open>await\<close>, so the confirmation
  leaves first.
\<close>

definition subscribeToBus ::
  "database \<Rightarrow> SocketService \<Rightarrow> socket \<Rightarrow> uuid \<Rightarrow> SocketService \<times> delivery list" where
  "subscribeToBus db hub sock busId =
     (if busId = [] then (hub, [])
      else
        (let m1 = (if \<not> Map_has (busSubscribers hub) busId
                   then busSubscribers hub @ [(busId, [])] else busSubscribers hub);
             m2 = Map_modify m1 busId (\<lambda>s. Set_add s (sock_id sock))
         in (hub\<lparr>busSubscribers := m2\<rparr>,
             (sock_id sock, ''subscribedToBus'', SubscribedData busId) # sendBusStatus db sock busId)))"

definition unsubscribeFromBus ::
  "SocketService \<Rightarrow> socket \<Rightarrow> uuid \<Rightarrow> SocketService \<times> delivery list" where
  "unsubscribeFromBus hub sock busId =
     (if busId = [] \<or> \<not> Map_has (busSubscribers hub) busId then (hub, [])
      else
        (let m1 = Map_modify (busSubscribers hub) busId (\<lambda>s. Set_delete s (sock_id sock));
             m2 = (if map_of m1 busId = Some [] then Map_delete m1 busId else m1)
         in (hub\<lparr>busSubscribers := m2\<rparr>,
             [(sock_id sock, ''unsubscribedFromBus'', UnsubscribedData busId)])))"

text \<open>
  The loop of \<^verbatim>\<open>handleDisconnect\<close> over the entries of \<^verbatim>\<open>busSubscribers\<close>. An
  iteration changes or deletes only the entry it visits.
\<close>

fun handleDisconnect_loop :: "socket_id \<Rightarrow> (uuid \<times> socket_id list) list \<Rightarrow> (uuid \<times> socket_id list) list" where
  "handleDisconnect_loop sid [] = []"
| "handleDisconnect_loop sid ((busId, subscribers) # rest) =
     (if sid \<in> set subscribers
      then (let subscribers' = Set_delete subscribers sid
            in if length subscribers' = 0 then handleDisconnect_loop sid rest
               else (busId, subscribers') # handleDisconnect_loop sid rest)
      else (busId, subscribers) # handleDisconnect_loop sid rest)"

definition handleDisconnect :: "SocketService \<Rightarrow> socket \<Rightarrow> SocketService" where
  "handleDisconnect hub sock =
     hub\<lparr>connectedUsers := Map_delete (connectedUsers hub) (sock_id sock),
         busSubscribers := handleDisconnect_loop (sock_id sock) (busSubscribers hub)\<rparr>"

text \<open>A sequence of subscription messages from sockets, applied in order.\<close>

datatype hub_op = Subscribe socket uuid | Unsubscribe socket uuid

fun run_hub_ops :: "database \<Rightarrow> SocketService \<Rightarrow> hub_op list \<Rightarrow> SocketService" where
  "run_hub_ops db hub [] = hub"
| "run_hub_ops db hub (Subscribe sock busId # ops) =
     run_hub_ops db (fst (subscribeToBus db hub sock busId)) ops"
| "run_hub_ops db hub (Unsubscribe sock busId # ops) =
     run_hub_ops db (fst (unsubscribeFromBus hub sock busId)) ops"

subsection \<open>The location controller\<close>

text \<open>
  A response is a failure (status code and the \<^verbatim>\<open>error\<close> string of the body) or the
  success body of one of the three handlers.
\<close>

datatype response =
    Failure nat string
  | StartedOk uuid LiveBusLocation
  | StoppedOk
  | UpdatedOk LiveBusLocation

text \<open>
  The requests. \<open>userId\<close> is \<^verbatim>\<open>req.user.id\<close>; \<open>validationErrors\<close> is what
  \<^verbatim>\<open>validationResult(req)\<close> holds after the validation chain of the route has run; a
  missing \<^verbatim>\<open>busId\<close> is the empty string.
\<close>

record start_request =
  sreq_userId :: uuid
  sreq_validationErrors :: "string list"
  sreq_busId :: string
  sreq_routeId :: "string option"

record stop_request =
  preq_userId :: uuid
  preq_busId :: string

record update_request =
  ureq_userId :: uuid
  ureq_validationErrors :: "string list"
  ureq_busId :: string
  ureq_latitude :: real
  ureq_longitude :: real
  ureq_speedKmh :: "real option"
  ureq_heading :: "real option"
  ureq_accuracyMeters :: "real option"

text \<open>The \<^verbatim>\<open>catch\<close> of \<^verbatim>\<open>startLocationSharing\<close>.\<close>

definition startLocationSharing_catch :: "sequelize_error \<Rightarrow> response" where
  "startLocationSharing_catch e =
     (case e of
        SequelizeForeignKeyConstraintError \<Rightarrow> Failure 400 ''Invalid reference''
      | SequelizeUniqueConstraintError \<Rightarrow> Failure 400 ''Duplicate entry''
      | _ \<Rightarrow> Failure 500 ''Internal server error'')"

text \<open>
  \<^verbatim>\<open>startLocationSharing\<close>. \<open>newTripId\<close> and \<open>newLocationId\<close> are the primary keys
  generated for the trip and for the live location row. The result is the response, the
  database and what the hub sent. There is no transaction: a trip created before a later
  step fails stays in the database.
\<close>

definition startLocationSharing ::
  "SocketService \<Rightarrow> real \<Rightarrow> uuid \<Rightarrow> uuid \<Rightarrow> database \<Rightarrow> start_request
     \<Rightarrow> response \<times> database \<times> delivery list" where
  "startLocationSharing hub now newTripId newLocationId db req =
     (if sreq_validationErrors req \<noteq> [] then (Failure 400 ''Validation failed'', db, [])
      else if sreq_busId req = [] then (Failure 400 ''Invalid bus ID'', db, [])
      else
        (case Bus_findByPk db (sreq_busId req) of
           None \<Rightarrow> (Failure 404 ''Bus not found'', db, [])
         | Some bus \<Rightarrow>
             if bus_driverId bus \<noteq> Some (sreq_userId req)
             then (Failure 403 ''Access denied'', db, [])
             else if \<not> bus_isActive bus then (Failure 400 ''Bus inactive'', db, [])
             else if (case LiveBusLocation_findByBusId db (sreq_busId req) of
                        None \<Rightarrow> False
                      | Some existingLocation \<Rightarrow> live_isLocationSharing existingLocation)
             then (Failure 400 ''Already sharing'', db, [])
             else
               (let finalRouteId = (if truthy (sreq_routeId req) then sreq_routeId req
                                    else bus_currentRouteId bus)
                in if truthy finalRouteId \<and>
                      (case finalRouteId of None \<Rightarrow> False | Some r \<Rightarrow> Route_findByPk db r = None)
                   then (Failure 404 ''Route not found'', db, [])
                   else
                     (case TripLog_create db newTripId (sreq_busId req) (sreq_userId req)
                             finalRouteId now of
                        Inl e \<Rightarrow> (startLocationSharing_catch e, db, [])
                      | Inr (tripLog, db1) \<Rightarrow>
                          (case LiveBusLocation_create db1 newLocationId (sreq_busId req)
                                  (sreq_userId req) finalRouteId now of
                             Inl e \<Rightarrow> (startLocationSharing_catch e, db1, [])
                           | Inr (location, db2) \<Rightarrow>
                               (let db3 = (if truthy (sreq_routeId req) \<and>
                                              sreq_routeId req \<noteq> bus_currentRouteId bus
                                           then Bus_save db2 (bus\<lparr>bus_currentRouteId := sreq_routeId req\<rparr>)
                                           else db2)
                                in (StartedOk (trip_id tripLog) location, db3,
                                    emitToAll hub ''locationSharingStarted''
                                      (SharingStartedData (sreq_busId req) (sreq_userId req)
                                         (trip_id tripLog)))))))))"

text \<open>\<^verbatim>\<open>stopLocationSharing\<close>.\<close>

definition stopLocationSharing ::
  "SocketService \<Rightarrow> real \<Rightarrow> database \<Rightarrow> stop_request \<Rightarrow> response \<times> database \<times> delivery list" where
  "stopLocationSharing hub now db req =
     (if preq_busId req = [] then (Failure 400 ''Validation failed'', db, [])
      else
        (case Bus_findByPk db (preq_busId req) of
           None \<Rightarrow> (Failure 403 ''Access denied'', db, [])
         | Some bus \<Rightarrow>
             if bus_driverId bus \<noteq> Some (preq_userId req)
             then (Failure 403 ''Access denied'', db, [])
             else
               (let activeTrip = find (\<lambda>t. trip_busId t = preq_busId req \<and>
                                            trip_driverId t = preq_userId req \<and>
                                            trip_status t = Active) (trip_logs db)
                in case LiveBusLocation_findByBusId db (preq_busId req) of
                     None \<Rightarrow> (Failure 400 ''Not sharing location'', db, [])
                   | Some location \<Rightarrow>
                       if \<not> live_isLocationSharing location
                       then (Failure 400 ''Not sharing location'', db, [])
                       else
                         (let db1 = LiveBusLocation_save db
                                      (location\<lparr>live_isLocationSharing := False\<rparr>)
                          in case (case activeTrip of
                                     None \<Rightarrow> Inr db1
                                   | Some trip \<Rightarrow> TripLog_endTrip now db1 trip) of
                               Inl e \<Rightarrow> (Failure 500 ''Internal server error'', db1, [])
                             | Inr db2 \<Rightarrow>
                                 (StoppedOk, db2,
                                  emitToAll hub ''locationSharingStopped''
                                    (SharingStoppedData (preq_busId req) (preq_userId req)))))))"

text \<open>
  \<^verbatim>\<open>updateLocation\<close>. \<open>newId\<close> is the primary key generated for the instance that
  the upsert builds. The history row is created with \<^verbatim>\<open>tripLogId: null\<close>. After it, the
  handler calls \<^verbatim>\<open>updateNextStop\<close> once more on the instance (not saved), broadcasts
  \<^verbatim>\<open>locationUpdate\<close> and answers. There is no transaction: what
  \<^verbatim>\<open>LiveBusLocation.updateLocation\<close> wrote stays when a later step fails.
\<close>

definition updateLocation ::
  "SocketService \<Rightarrow> real \<Rightarrow> uuid \<Rightarrow> database \<Rightarrow> update_request
     \<Rightarrow> response \<times> database \<times> delivery list" where
  "updateLocation hub now newId db req =
     (if ureq_validationErrors req \<noteq> [] then (Failure 400 ''Validation failed'', db, [])
      else
        (case LiveBusLocation_findByBusId db (ureq_busId req) of
           None \<Rightarrow> (Failure 400 ''Location sharing not active'', db, [])
         | Some location \<Rightarrow>
             if \<not> live_isLocationSharing location
             then (Failure 400 ''Location sharing not active'', db, [])
             else if live_driverId location \<noteq> ureq_userId req
             then (Failure 403 ''Access denied'', db, [])
             else
               (let speed = (case ureq_speedKmh req of
                               None \<Rightarrow> 0
                             | Some v \<Rightarrow> v)
                in case LiveBusLocation_updateLocation now db newId (ureq_busId req)
                          \<lparr>ld_latitude = ureq_latitude req, ld_longitude = ureq_longitude req,
                           ld_speedKmh = speed, ld_heading = ureq_heading req,
                           ld_accuracyMeters = ureq_accuracyMeters req,
                           ld_driverId = ureq_userId req,
                           ld_currentRouteId = live_currentRouteId location,
                           ld_isLocationSharing = True\<rparr> of
                     (updatedLocation, db1) \<Rightarrow>
                       (case LocationHistory_create db1 None (ureq_busId req)
                               (ureq_latitude req) (ureq_longitude req) (Some speed)
                               (ureq_heading req) (ureq_accuracyMeters req) of
                          Inl e \<Rightarrow> (Failure 500 ''Internal server error'', db1, [])
                        | Inr db2 \<Rightarrow>
                            (let updatedLocation' = updateNextStop now db2 updatedLocation
                             in (UpdatedOk updatedLocation', db2,
                                 emitToAll hub ''locationUpdate''
                                   (LocationUpdateData (ureq_busId req) updatedLocation')))))))"






subsection \<open>An example deployment\<close>

text \<open>
  One bus \<open>B1\<close> with its driver \<open>D1\<close> on the route \<open>R1\<close>, whose only stop is at
  (0, 180); two connected observers, one of them subscribed to another bus.
\<close>

definition demo_db :: database where
  "demo_db =
     \<lparr>buses = [\<lparr>bus_id = ''B1'', bus_driverId = Some ''D1'', bus_isActive = True,
                bus_currentRouteId = Some ''R1''\<rparr>],
      routes = [''R1''],
      bus_stops = [\<lparr>stop_id = ''S1'', stop_routeId = ''R1'', stop_stopOrder = 1,
                    stop_latitude = 0, stop_longitude = 180\<rparr>],
      live_bus_locations = [], trip_logs = [], location_history = []\<rparr>"

definition demo_hub :: SocketService where
  "demo_hub = \<lparr>io = Some [''k1'', ''k2''],
               connectedUsers = [(''k1'', ''P1''), (''k2'', ''P2'')],
               busSubscribers = [(''B2'', [''k1''])]\<rparr>"

definition demo_start :: start_request where
  "demo_start = \<lparr>sreq_userId = ''D1'', sreq_validationErrors = [], sreq_busId = ''B1'',
                 sreq_routeId = Some ''R1''\<rparr>"

definition demo_stop :: stop_request where
  "demo_stop = \<lparr>preq_userId = ''D1'', preq_busId = ''B1''\<rparr>"

definition demo_report :: "real \<Rightarrow> real \<Rightarrow> real \<Rightarrow> update_request" where
  "demo_report latitude longitude speed =
     \<lparr>ureq_userId = ''D1'', ureq_validationErrors = [], ureq_busId = ''B1'',
      ureq_latitude = latitude, ureq_longitude = longitude, ureq_speedKmh = Some speed,
      ureq_heading = Some 0, ureq_accuracyMeters = Some 5\<rparr>"

text \<open>
  The databases of a session: after the start, after a stop, and after two position
  reports, the first at (0, 0) with 20 km/h, the second at the stop with speed 0.
\<close>

definition demo_started :: database where
  "demo_started = fst (snd (startLocationSharing demo_hub 1000 ''T1'' ''L1'' demo_db demo_start))"

definition demo_stopped :: database where
  "demo_stopped = fst (snd (stopLocationSharing demo_hub 2000 demo_started demo_stop))"

definition demo_reported1 :: database where
  "demo_reported1 =
     fst (snd (updateLocation demo_hub 2000 ''U1'' demo_started (demo_report 0 0 20)))"


subsection \<open>Auxiliary predicates\<close>


text \<open>
  The state of the loop of \<^verbatim>\<open>findNextStop\<close> after the stops \<open>seen\<close>: nothing
  chosen and every stop within the floor, or the chosen stop is the first of least
  distance among the stops beyond the floor.
\<close>

definition first_min ::
  "real \<Rightarrow> real \<Rightarrow> BusStop list \<Rightarrow> BusStop option \<times> real option \<Rightarrow> bool" where
  "first_min la lo seen acc =
     (case fst acc of
        None \<Rightarrow> snd acc = None \<and> list_all (\<lambda>s. BusStop_calculateDistanceTo s la lo \<le> 100) seen
      | Some s \<Rightarrow>
          snd acc = Some (BusStop_calculateDistanceTo s la lo) \<and>
          100 < BusStop_calculateDistanceTo s la lo \<and>
          (\<exists>ys zs. seen = ys @ s # zs \<and>
             list_all (\<lambda>t. BusStop_calculateDistanceTo t la lo \<le> 100 \<or>
                          BusStop_calculateDistanceTo s la lo < BusStop_calculateDistanceTo t la lo) ys \<and>
             list_all (\<lambda>t. BusStop_calculateDistanceTo t la lo \<le> 100 \<or>
                          BusStop_calculateDistanceTo s la lo \<le> BusStop_calculateDistanceTo t la lo) zs))"

section \<open>Properties\<close>

subsection \<open>Geo math\<close>

lemma toRadians_diff_swap: "toRadians (x - y) = - toRadians (y - x)"
proof -
  have "x - y = - (y - x)" by simp
  then show ?thesis unfolding toRadians_def by (simp only: mult_minus_left)
qed

lemma sin_half_sq_swap:
  "sin (toRadians (x - y) / 2) * sin (toRadians (x - y) / 2) =
   sin (toRadians (y - x) / 2) * sin (toRadians (y - x) / 2)"
proof -
  have "toRadians (x - y) / 2 = - (toRadians (y - x) / 2)"
    by (simp add: toRadians_diff_swap [of x y])
  then have "sin (toRadians (x - y) / 2) = - sin (toRadians (y - x) / 2)"
    by (simp only: sin_minus)
  then show ?thesis by simp
qed

lemma haversine_a_swap:
  "sin (toRadians (lat b - lat a) / 2) * sin (toRadians (lat b - lat a) / 2) +
     cos (toRadians (lat a)) * cos (toRadians (lat b)) *
     sin (toRadians (lng b - lng a) / 2) * sin (toRadians (lng b - lng a) / 2) =
   sin (toRadians (lat a - lat b) / 2) * sin (toRadians (lat a - lat b) / 2) +
     cos (toRadians (lat b)) * cos (toRadians (lat a)) *
     sin (toRadians (lng a - lng b) / 2) * sin (toRadians (lng a - lng b) / 2)"
proof -
  have 1: "sin (toRadians (lat b - lat a) / 2) * sin (toRadians (lat b - lat a) / 2) =
        sin (toRadians (lat a - lat b) / 2) * sin (toRadians (lat a - lat b) / 2)"
    by (rule sin_half_sq_swap)
  have 2: "sin (toRadians (lng b - lng a) / 2) * sin (toRadians (lng b - lng a) / 2) =
        sin (toRadians (lng a - lng b) / 2) * sin (toRadians (lng a - lng b) / 2)"
    by (rule sin_half_sq_swap)
  have "cos (toRadians (lat a)) * cos (toRadians (lat b)) *
     sin (toRadians (lng b - lng a) / 2) * sin (toRadians (lng b - lng a) / 2)
     = cos (toRadians (lat b)) * cos (toRadians (lat a)) *
     (sin (toRadians (lng b - lng a) / 2) * sin (toRadians (lng b - lng a) / 2))"
    by (simp add: mult.commute mult.left_commute)
  also have "\<dots> = cos (toRadians (lat b)) * cos (toRadians (lat a)) *
     (sin (toRadians (lng a - lng b) / 2) * sin (toRadians (lng a - lng b) / 2))"
    by (simp only: 2)
  also have "\<dots> = cos (toRadians (lat b)) * cos (toRadians (lat a)) *
     sin (toRadians (lng a - lng b) / 2) * sin (toRadians (lng a - lng b) / 2)"
    by (simp add: mult.assoc)
  finally show ?thesis using 1 by simp
qed

lemma calculateDistance_self: "calculateDistance a a = 0"
  by (simp add: calculateDistance_def toRadians_def Math_atan2_def)

text \<open>
  In real arithmetic the haversine formula is symmetric and gives 0 for equal
  coordinates. This is a fact about the formula, not about the doubles of the program:
  for nearly antipodal pairs the computed haversine term can exceed 1 and the program
  returns NaN, which equals nothing.
\<close>

lemma calculateDistance_real_symmetric:
  "calculateDistance a b = calculateDistance b a"
  unfolding calculateDistance_def Let_def
  by (simp only: haversine_a_swap [of b a])

subsection \<open>ETA estimator\<close>

lemma weightedLoop_sums:
  "weightedLoop xs k (ws, tw) =
     (ws + (\<Sum>i<length xs. xs ! i * real (k + i + 1)),
      tw + (\<Sum>i<length xs. real (k + i + 1)))"
proof (induction xs arbitrary: k ws tw)
  case Nil
  show ?case by simp
next
  case (Cons x xs)
  show ?case
    by (simp add: Cons.IH sum.lessThan_Suc_shift Let_def algebra_simps del: sum.lessThan_Suc)
qed

lemma averageSpeed_spec: "averageSpeed xs = spec_weighted_average xs"
  by (simp add: averageSpeed_def spec_weighted_average_def weightedLoop_sums)

lemma validSpeeds_id: "\<forall>s\<in>set xs. 0 < s \<and> s < 120 \<Longrightarrow> validSpeeds xs = xs"
  by (simp add: validSpeeds_def)

text \<open>
  C5. For a non-empty list of valid samples (each strictly between 0 and 120 km/h) the
  smoothed speed of \<^verbatim>\<open>calculateSmoothedETA\<close> is the recency-weighted average of the
  specification, sum of speed times weight over sum of weights, the i-th sample
  (1-indexed, oldest first) having weight i; this speed is what the estimate is
  computed from.
\<close>

theorem smoothed_speed_is_weighted_average:
  assumes "xs \<noteq> []" and "\<forall>s\<in>set xs. 0 < s \<and> s < 120"
  shows "averageSpeed (validSpeeds xs) = spec_weighted_average xs \<and>
         (d \<noteq> 0 \<longrightarrow>
            calculateSmoothedETA now xs d = calculateETA now d (spec_weighted_average xs) 2)"
  using assms
  by (simp add: validSpeeds_id averageSpeed_spec calculateSmoothedETA_def)

text \<open>The samples 10, 20, 30 of the specification give 140/6.\<close>

theorem smoothed_speed_is_weighted_average_witness:
  "averageSpeed (validSpeeds [10, 20, 30]) = 140 / 6 \<and>
   spec_weighted_average [10, 20, 30] = 140 / 6 \<and>
   calculateSmoothedETA 0 [10, 20, 30] 7 = calculateETA 0 7 (140 / 6) 2"
proof -
  have ne: "[10, 20, 30::real] \<noteq> []" by simp
  have ok: "\<forall>s\<in>set [10, 20, 30::real]. 0 < s \<and> s < 120" by simp
  have v: "spec_weighted_average [10, 20, 30] = 140 / 6"
    by (simp add: spec_weighted_average_def lessThan_Suc numeral_3_eq_3)
  show ?thesis
    using smoothed_speed_is_weighted_average [OF ne ok, of 7 0] v by simp
qed

text \<open>
  C3. With a positive distance and no valid sample, \<^verbatim>\<open>calculateSmoothedETA\<close> assumes
  25 km/h, but the confidence it returns is \<open>High\<close>, and the estimate is flagged as
  real-time: the assumed speed has replaced the supplied one when both are computed.
  Evaluated for 5 km with no sample, and with the samples 0 and 150.
\<close>

theorem fallback_confidence_is_high:
  "speedKmh (calculateSmoothedETA 0 [] 5) = Some 25 \<and>
   confidence (calculateSmoothedETA 0 [] 5) = High \<and>
   isRealtime (calculateSmoothedETA 0 [] 5) \<and>
   validSpeeds [0, 150] = [] \<and>
   speedKmh (calculateSmoothedETA 0 [0, 150] 5) = Some 25 \<and>
   confidence (calculateSmoothedETA 0 [0, 150] 5) = High"
  by (simp add: calculateSmoothedETA_def calculateETA_def validSpeeds_def Math_round_def Let_def)

text \<open>
  C7. When the bus and the stop are less than 100 m (0.1 km) apart,
  \<^verbatim>\<open>estimateTimeToStop\<close> returns the fixed answer: ETA one minute from now, duration
  1 minute, status arriving, confidence high, whatever the current speed and the
  samples.
\<close>

theorem near_stop_fixed_arrival:
  assumes "calculateDistance busLocation stopLocation < 0.1"
  shows "estimateTimeToStop now busLocation stopLocation currentSpeed recentSpeeds =
           \<lparr>eta = Some (now + 60 * 1000), durationMinutes = 1,
            distanceKm = Some (calculateDistance busLocation stopLocation),
            speedKmh = None, isRealtime = True, confidence = High,
            status = Some Arriving\<rparr>"
  using assms by (simp add: estimateTimeToStop_def Let_def)

theorem near_stop_fixed_arrival_witness:
  "calculateDistance \<lparr>lat = 12.9716, lng = 77.5946\<rparr> \<lparr>lat = 12.9716, lng = 77.5946\<rparr> < 0.1 \<and>
   estimateTimeToStop 0 \<lparr>lat = 12.9716, lng = 77.5946\<rparr> \<lparr>lat = 12.9716, lng = 77.5946\<rparr>
       (Some 40) [500, 30, 0] =
     \<lparr>eta = Some 60000, durationMinutes = 1, distanceKm = Some 0,
      speedKmh = None, isRealtime = True, confidence = High, status = Some Arriving\<rparr>"
proof -
  have d: "calculateDistance \<lparr>lat = 12.9716, lng = 77.5946\<rparr> \<lparr>lat = 12.9716, lng = 77.5946\<rparr> < 0.1"
    by (simp add: calculateDistance_self)
  show ?thesis
    using d near_stop_fixed_arrival [OF d, of 0 "Some 40" "[500, 30, 0]"]
    by (simp add: calculateDistance_self)
qed

subsection \<open>Stop locator\<close>


lemma findNextStop_loop_first_min:
  "first_min la lo seen acc \<Longrightarrow>
   first_min la lo (seen @ xs) (findNextStop_loop xs la lo acc)"
proof (induction xs arbitrary: seen acc)
  case Nil
  then show ?case by simp
next
  case (Cons x xs)
  obtain ns md where acc: "acc = (ns, md)" by (cases acc)
  let ?D = "\<lambda>s. BusStop_calculateDistanceTo s la lo"
  have step: "first_min la lo (seen @ [x])
     (if (case md of None \<Rightarrow> True | Some m \<Rightarrow> ?D x < m) \<and> 100 < ?D x
      then (Some x, Some (?D x)) else (ns, md))"
  proof (cases ns)
    case None
    with Cons.prems acc have md: "md = None" and near: "list_all (\<lambda>s. ?D s \<le> 100) seen"
      by (auto simp: first_min_def)
    show ?thesis
    proof (cases "100 < ?D x")
      case True
      have "seen @ [x] = seen @ x # [] \<and>
            list_all (\<lambda>t. ?D t \<le> 100 \<or> ?D x < ?D t) seen \<and>
            list_all (\<lambda>t. ?D t \<le> 100 \<or> ?D x \<le> ?D t) []"
        using near by (auto simp: list_all_iff)
      then have "\<exists>ys zs. seen @ [x] = ys @ x # zs \<and>
            list_all (\<lambda>t. ?D t \<le> 100 \<or> ?D x < ?D t) ys \<and>
            list_all (\<lambda>t. ?D t \<le> 100 \<or> ?D x \<le> ?D t) zs"
        by blast
      with True md show ?thesis by (simp add: first_min_def)
    next
      case False
      with md near None show ?thesis by (simp add: first_min_def)
    qed
  next
    case (Some s)
    with Cons.prems acc obtain ys zs where
      md: "md = Some (?D s)" and far: "100 < ?D s" and split: "seen = ys @ s # zs" and
      before: "list_all (\<lambda>t. ?D t \<le> 100 \<or> ?D s < ?D t) ys" and
      after: "list_all (\<lambda>t. ?D t \<le> 100 \<or> ?D s \<le> ?D t) zs"
      by (auto simp: first_min_def)
    show ?thesis
    proof (cases "?D x < ?D s \<and> 100 < ?D x")
      case True
      have "list_all (\<lambda>t. ?D t \<le> 100 \<or> ?D x < ?D t) seen"
        using True split before after far by (auto simp: list_all_iff)
      then have "seen @ [x] = seen @ x # [] \<and>
                 list_all (\<lambda>t. ?D t \<le> 100 \<or> ?D x < ?D t) seen \<and>
                 list_all (\<lambda>t. ?D t \<le> 100 \<or> ?D x \<le> ?D t) []"
        by simp
      then have "\<exists>ys zs. seen @ [x] = ys @ x # zs \<and>
                 list_all (\<lambda>t. ?D t \<le> 100 \<or> ?D x < ?D t) ys \<and>
                 list_all (\<lambda>t. ?D t \<le> 100 \<or> ?D x \<le> ?D t) zs"
        by blast
      with True md show ?thesis by (simp add: first_min_def)
    next
      case False
      have "seen @ [x] = ys @ s # (zs @ [x]) \<and>
            list_all (\<lambda>t. ?D t \<le> 100 \<or> ?D s < ?D t) ys \<and>
            list_all (\<lambda>t. ?D t \<le> 100 \<or> ?D s \<le> ?D t) (zs @ [x])"
        using False split before after by auto
      then have "\<exists>ys zs. seen @ [x] = ys @ s # zs \<and>
            list_all (\<lambda>t. ?D t \<le> 100 \<or> ?D s < ?D t) ys \<and>
            list_all (\<lambda>t. ?D t \<le> 100 \<or> ?D s \<le> ?D t) zs"
        by blast
      with False md far Some show ?thesis by (auto simp: first_min_def)
    qed
  qed
  have "findNextStop_loop (x # xs) la lo acc =
        findNextStop_loop xs la lo
          (if (case md of None \<Rightarrow> True | Some m \<Rightarrow> ?D x < m) \<and> 100 < ?D x
           then (Some x, Some (?D x)) else (ns, md))"
    by (simp add: acc Let_def)
  moreover have "seen @ x # xs = (seen @ [x]) @ xs" by simp
  ultimately show ?case
    using Cons.IH [OF step] by (simp only:)
qed

lemma findNextStop_first_min:
  "first_min la lo (BusStop_findAll_routeId stops r)
     (findNextStop_loop (BusStop_findAll_routeId stops r) la lo (None, None))"
  using findNextStop_loop_first_min [of la lo "[]" "(None, None)" "BusStop_findAll_routeId stops r"]
  by (simp add: first_min_def)

lemma set_BusStop_findAll_routeId:
  "set (BusStop_findAll_routeId stops r) = {s \<in> set stops. stop_routeId s = r}"
  by (auto simp: BusStop_findAll_routeId_def)

lemma sorted_BusStop_findAll_routeId:
  "sorted (map stop_stopOrder (BusStop_findAll_routeId stops r))"
  by (simp add: BusStop_findAll_routeId_def)

text \<open>
  The choice of \<^verbatim>\<open>findNextStop\<close> when every distance is computed as a number (real
  arithmetic): nothing exactly when every stop of the route is within 100 m of the
  position; otherwise a stop of the route more than 100 m away, of least distance among
  those, and of least stop order among the stops at the same distance. A stop whose
  distance the program computes as NaN (a stop nearly antipodal to the position) fails
  both tests of the loop and is never chosen; that case is outside this lemma.
\<close>

lemma findNextStop_nearest_beyond_floor:
  "(findNextStop stops r la lo = None \<longleftrightarrow>
      (\<forall>s \<in> set stops. stop_routeId s = r \<longrightarrow> BusStop_calculateDistanceTo s la lo \<le> 100)) \<and>
   (\<forall>s. findNextStop stops r la lo = Some s \<longrightarrow>
      s \<in> set stops \<and> stop_routeId s = r \<and> 100 < BusStop_calculateDistanceTo s la lo \<and>
      (\<forall>t \<in> set stops. stop_routeId t = r \<and> 100 < BusStop_calculateDistanceTo t la lo \<longrightarrow>
          BusStop_calculateDistanceTo s la lo \<le> BusStop_calculateDistanceTo t la lo) \<and>
      (\<forall>t \<in> set stops. stop_routeId t = r \<and>
          BusStop_calculateDistanceTo t la lo = BusStop_calculateDistanceTo s la lo \<longrightarrow>
          stop_stopOrder s \<le> stop_stopOrder t))"
proof -
  let ?D = "\<lambda>s. BusStop_calculateDistanceTo s la lo"
  let ?L = "BusStop_findAll_routeId stops r"
  let ?res = "findNextStop_loop ?L la lo (None, None)"
  have fm: "first_min la lo ?L ?res" by (rule findNextStop_first_min)
  have setL: "set ?L = {s \<in> set stops. stop_routeId s = r}" by (rule set_BusStop_findAll_routeId)
  have res: "findNextStop stops r la lo = fst ?res"
  proof (cases "?L = []")
    case True
    then show ?thesis by (simp add: findNextStop_def)
  next
    case False
    then show ?thesis by (simp add: findNextStop_def Let_def)
  qed
  have none: "fst ?res = None \<longleftrightarrow> (\<forall>s \<in> set ?L. ?D s \<le> 100)"
  proof (cases "fst ?res")
    case None
    with fm show ?thesis by (simp add: first_min_def list_all_iff)
  next
    case (Some s)
    with fm obtain ys zs where "100 < ?D s" "?L = ys @ s # zs"
      by (auto simp: first_min_def)
    then have "s \<in> set ?L \<and> \<not> ?D s \<le> 100" by simp
    with Some show ?thesis by auto
  qed
  have some: "s \<in> set ?L \<and> 100 < ?D s \<and>
      (\<forall>t \<in> set ?L. 100 < ?D t \<longrightarrow> ?D s \<le> ?D t) \<and>
      (\<forall>t \<in> set ?L. ?D t = ?D s \<longrightarrow> stop_stopOrder s \<le> stop_stopOrder t)"
    if "fst ?res = Some s" for s
  proof -
    from fm that obtain ys zs where
      far: "100 < ?D s" and split: "?L = ys @ s # zs" and
      before: "list_all (\<lambda>t. ?D t \<le> 100 \<or> ?D s < ?D t) ys" and
      after: "list_all (\<lambda>t. ?D t \<le> 100 \<or> ?D s \<le> ?D t) zs"
      by (auto simp: first_min_def)
    have srt: "sorted (map stop_stopOrder (ys @ s # zs))"
      using sorted_BusStop_findAll_routeId [of stops r] split by simp
    have mem: "s \<in> set ?L" using split by simp
    have least: "\<forall>t \<in> set ?L. 100 < ?D t \<longrightarrow> ?D s \<le> ?D t"
      using split before after by (auto simp: list_all_iff)
    have tie: "\<forall>t \<in> set ?L. ?D t = ?D s \<longrightarrow> stop_stopOrder s \<le> stop_stopOrder t"
    proof (intro ballI impI)
      fix t assume t: "t \<in> set ?L" and eq: "?D t = ?D s"
      have "t \<notin> set ys" using before eq far by (auto simp: list_all_iff)
      with t split have "t = s \<or> t \<in> set zs" by auto
      with srt show "stop_stopOrder s \<le> stop_stopOrder t"
        by (auto simp: sorted_append)
    qed
    from mem far least tie show ?thesis by blast
  qed
  show ?thesis
    unfolding res using none some setL by (auto simp: )
qed

subsection \<open>The socket hub\<close>

lemma handleDisconnect_loop_absent:
  "sid \<notin> \<Union> (set ` snd ` set (handleDisconnect_loop sid m))"
proof (induction m)
  case Nil
  show ?case by simp
next
  case (Cons e m)
  obtain busId subscribers where e: "e = (busId, subscribers)" by (cases e)
  show ?case
    using Cons.IH by (simp add: e Set_delete_def Let_def)
qed

text \<open>
  C9. After \<^verbatim>\<open>handleDisconnect\<close> the id of the socket is in no interest set of the hub,
  whatever the hub held before and whatever subscribe and unsubscribe messages (of this
  socket or of others) came before.
\<close>

theorem handleDisconnect_removes_observer:
  "sock_id sock \<notin>
     \<Union> (set ` snd ` set (busSubscribers (handleDisconnect (run_hub_ops db hub ops) sock)))"
proof -
  have "busSubscribers (handleDisconnect (run_hub_ops db hub ops) sock) =
        handleDisconnect_loop (sock_id sock) (busSubscribers (run_hub_ops db hub ops))"
    by (simp add: handleDisconnect_def)
  then show ?thesis
    using handleDisconnect_loop_absent
            [of "sock_id sock" "busSubscribers (run_hub_ops db hub ops)"]
    by simp
qed

text \<open>
  The observer \<open>k1\<close> subscribes to two buses, drops one, subscribes again and leaves:
  the interest set it shared keeps the other observer, the one it held alone is gone.
\<close>

theorem handleDisconnect_removes_observer_witness:
  "busSubscribers
     (handleDisconnect
        (run_hub_ops demo_db demo_hub
           [Subscribe \<lparr>sock_id = ''k1'', sock_userId = ''P1''\<rparr> ''B1'',
            Subscribe \<lparr>sock_id = ''k2'', sock_userId = ''P2''\<rparr> ''B1'',
            Unsubscribe \<lparr>sock_id = ''k1'', sock_userId = ''P1''\<rparr> ''B1'',
            Subscribe \<lparr>sock_id = ''k1'', sock_userId = ''P1''\<rparr> ''B1''])
        \<lparr>sock_id = ''k1'', sock_userId = ''P1''\<rparr>) = [(''B1'', [''k2''])] \<and>
   ''k1'' \<notin> \<Union> (set ` snd ` set (busSubscribers
     (handleDisconnect
        (run_hub_ops demo_db demo_hub
           [Subscribe \<lparr>sock_id = ''k1'', sock_userId = ''P1''\<rparr> ''B1'',
            Subscribe \<lparr>sock_id = ''k2'', sock_userId = ''P2''\<rparr> ''B1'',
            Unsubscribe \<lparr>sock_id = ''k1'', sock_userId = ''P1''\<rparr> ''B1'',
            Subscribe \<lparr>sock_id = ''k1'', sock_userId = ''P1''\<rparr> ''B1''])
        \<lparr>sock_id = ''k1'', sock_userId = ''P1''\<rparr>)))"
proof -
  have run: "busSubscribers
     (handleDisconnect
        (run_hub_ops demo_db demo_hub
           [Subscribe \<lparr>sock_id = ''k1'', sock_userId = ''P1''\<rparr> ''B1'',
            Subscribe \<lparr>sock_id = ''k2'', sock_userId = ''P2''\<rparr> ''B1'',
            Unsubscribe \<lparr>sock_id = ''k1'', sock_userId = ''P1''\<rparr> ''B1'',
            Subscribe \<lparr>sock_id = ''k1'', sock_userId = ''P1''\<rparr> ''B1''])
        \<lparr>sock_id = ''k1'', sock_userId = ''P1''\<rparr>) = [(''B1'', [''k2''])]"
    by (simp add: handleDisconnect_def subscribeToBus_def unsubscribeFromBus_def demo_hub_def
        Map_has_def Map_modify_def Map_delete_def Set_add_def Set_delete_def Let_def)
  show ?thesis
    using run handleDisconnect_removes_observer
      [of "\<lparr>sock_id = ''k1'', sock_userId = ''P1''\<rparr>" demo_db demo_hub
          "[Subscribe \<lparr>sock_id = ''k1'', sock_userId = ''P1''\<rparr> ''B1'',
            Subscribe \<lparr>sock_id = ''k2'', sock_userId = ''P2''\<rparr> ''B1'',
            Unsubscribe \<lparr>sock_id = ''k1'', sock_userId = ''P1''\<rparr> ''B1'',
            Subscribe \<lparr>sock_id = ''k1'', sock_userId = ''P1''\<rparr> ''B1'']"]
    by simp
qed

subsection \<open>The example session, evaluated\<close>

lemmas orm_defs =
  Bus_findByPk_def Bus_save_def Route_findByPk_def BusStop_findByPk_def
  LiveBusLocation_findByBusId_def TripLog_create_def TripLog_save_def TripLog_endTrip_def
  LiveBusLocation_create_def LiveBusLocation_save_def LocationHistory_create_def
  LiveBusLocation_upsert_def LiveBusLocation_updateLocation_def truthy_def

lemma updateETA_id: "live_id (updateETA now db l) = live_id l"
  by (simp add: updateETA_def Let_def split: option.splits)

lemma updateNextStop_id: "live_id (updateNextStop now db l) = live_id l"
  by (simp add: updateNextStop_def updateETA_id split: option.splits)

lemma demo_started_eq:
  "demo_started =
     demo_db\<lparr>live_bus_locations :=
               [\<lparr>live_id = ''L1'', live_busId = ''B1'', live_driverId = ''D1'',
                 live_latitude = 0, live_longitude = 0, live_speedKmh = None,
                 live_heading = None, live_accuracyMeters = None,
                 live_isLocationSharing = True, live_currentRouteId = Some ''R1'',
                 live_nextStopId = None, live_distanceToNextStop = None,
                 live_etaToNextStop = None, live_tripStartedAt = Some 1000\<rparr>],
             trip_logs :=
               [\<lparr>trip_id = ''T1'', trip_busId = ''B1'', trip_driverId = ''D1'',
                 trip_routeId = ''R1'', trip_startedAt = 1000, trip_endedAt = None,
                 trip_totalDistanceKm = None, trip_totalDurationMinutes = None,
                 trip_averageSpeedKmh = None, trip_status = Active\<rparr>]\<rparr>"
  by (simp add: demo_started_def startLocationSharing_def demo_db_def demo_start_def
      orm_defs Let_def)

lemma demo_start_response:
  "fst (startLocationSharing demo_hub 1000 ''T1'' ''L1'' demo_db demo_start) =
     StartedOk ''T1''
       \<lparr>live_id = ''L1'', live_busId = ''B1'', live_driverId = ''D1'', live_latitude = 0,
        live_longitude = 0, live_speedKmh = None, live_heading = None,
        live_accuracyMeters = None, live_isLocationSharing = True,
        live_currentRouteId = Some ''R1'', live_nextStopId = None,
        live_distanceToNextStop = None, live_etaToNextStop = None,
        live_tripStartedAt = Some 1000\<rparr>"
  by (simp add: startLocationSharing_def demo_db_def demo_start_def orm_defs Let_def)

lemma demo_stopped_eq:
  "demo_stopped =
     demo_db\<lparr>live_bus_locations :=
               [\<lparr>live_id = ''L1'', live_busId = ''B1'', live_driverId = ''D1'',
                 live_latitude = 0, live_longitude = 0, live_speedKmh = None,
                 live_heading = None, live_accuracyMeters = None,
                 live_isLocationSharing = False, live_currentRouteId = Some ''R1'',
                 live_nextStopId = None, live_distanceToNextStop = None,
                 live_etaToNextStop = None, live_tripStartedAt = Some 1000\<rparr>],
             trip_logs :=
               [\<lparr>trip_id = ''T1'', trip_busId = ''B1'', trip_driverId = ''D1'',
                 trip_routeId = ''R1'', trip_startedAt = 1000, trip_endedAt = Some 2000,
                 trip_totalDistanceKm = None, trip_totalDurationMinutes = Some 0,
                 trip_averageSpeedKmh = None, trip_status = Completed\<rparr>]\<rparr>"
  by (simp add: demo_stopped_def demo_started_eq stopLocationSharing_def demo_db_def
      demo_stop_def orm_defs Math_round_def Let_def)

lemma demo_stop_response:
  "fst (stopLocationSharing demo_hub 2000 demo_started demo_stop) = StoppedOk"
  by (simp add: demo_started_eq stopLocationSharing_def demo_db_def
      demo_stop_def orm_defs Math_round_def Let_def)

lemma demo_report1:
  "updateLocation demo_hub 2000 ''U1'' demo_started (demo_report 0 0 20) =
     (Failure 500 ''Internal server error'',
      demo_started\<lparr>live_bus_locations :=
               [\<lparr>live_id = ''L1'', live_busId = ''B1'', live_driverId = ''D1'',
                 live_latitude = 0, live_longitude = 0, live_speedKmh = Some 20,
                 live_heading = Some 0, live_accuracyMeters = Some 5,
                 live_isLocationSharing = True, live_currentRouteId = Some ''R1'',
                 live_nextStopId = None, live_distanceToNextStop = None,
                 live_etaToNextStop = None, live_tripStartedAt = Some 1000\<rparr>]\<rparr>,
      [])"
  by (simp add: demo_started_eq updateLocation_def demo_db_def demo_report_def orm_defs
      updateNextStop_id Let_def)

lemma demo_reported1_eq:
  "demo_reported1 =
     demo_started\<lparr>live_bus_locations :=
               [\<lparr>live_id = ''L1'', live_busId = ''B1'', live_driverId = ''D1'',
                 live_latitude = 0, live_longitude = 0, live_speedKmh = Some 20,
                 live_heading = Some 0, live_accuracyMeters = Some 5,
                 live_isLocationSharing = True, live_currentRouteId = Some ''R1'',
                 live_nextStopId = None, live_distanceToNextStop = None,
                 live_etaToNextStop = None, live_tripStartedAt = Some 1000\<rparr>]\<rparr>"
  by (simp add: demo_reported1_def demo_report1)


subsection \<open>Starting a session\<close>

lemma find_append_last:
  "find P (xs @ [x]) = (case find P xs of Some y \<Rightarrow> Some y | None \<Rightarrow> if P x then Some x else None)"
  by (induction xs) simp_all

lemma find_None_weaken: "find P xs = None \<Longrightarrow> find (\<lambda>x. P x \<and> Q x) xs = None"
  by (auto simp: find_None_iff)

lemma Route_findByPk_None: "Route_findByPk db r = None \<longleftrightarrow> r \<notin> set (routes db)"
  by (auto simp: Route_findByPk_def find_None_iff)

lemma LiveBusLocation_findByBusId_sharing:
  "LiveBusLocation_findByBusId db busId = Some l \<Longrightarrow> live_isLocationSharing l"
  by (auto simp: LiveBusLocation_findByBusId_def find_Some_iff)

lemma startLocationSharing_rejects:
  assumes "Bus_findByPk db (sreq_busId req) = None \<or>
           (\<exists>bus. Bus_findByPk db (sreq_busId req) = Some bus \<and>
              (bus_driverId bus \<noteq> Some (sreq_userId req) \<or> \<not> bus_isActive bus \<or>
               (\<exists>r. (if truthy (sreq_routeId req) then sreq_routeId req
                      else bus_currentRouteId bus) = Some r \<and> r \<noteq> [] \<and>
                     r \<notin> set (routes db)))) \<or>
           LiveBusLocation_findByBusId db (sreq_busId req) \<noteq> None"
  shows "\<exists>code err. startLocationSharing hub now tid lid db req = (Failure code err, db, [])"
proof (cases "sreq_validationErrors req \<noteq> [] \<or> sreq_busId req = []")
  case True
  then show ?thesis by (auto simp: startLocationSharing_def)
next
  case wf: False
  show ?thesis
  proof (cases "Bus_findByPk db (sreq_busId req)")
    case None
    with wf show ?thesis by (simp add: startLocationSharing_def)
  next
    case (Some bus)
    show ?thesis
    proof (cases "bus_driverId bus \<noteq> Some (sreq_userId req) \<or> \<not> bus_isActive bus")
      case True
      with wf Some show ?thesis by (auto simp: startLocationSharing_def)
    next
      case ok: False
      show ?thesis
      proof (cases "LiveBusLocation_findByBusId db (sreq_busId req)")
        case (Some l)
        with wf \<open>Bus_findByPk db (sreq_busId req) = Some bus\<close> ok
          LiveBusLocation_findByBusId_sharing [OF Some]
        show ?thesis by (simp add: startLocationSharing_def)
      next
        case None
        with assms \<open>Bus_findByPk db (sreq_busId req) = Some bus\<close> ok
        obtain r where
          r: "(if truthy (sreq_routeId req) then sreq_routeId req
               else bus_currentRouteId bus) = Some r" "r \<noteq> []" "r \<notin> set (routes db)"
          by auto
        then have "truthy (Some r)" "Route_findByPk db r = None"
          by (simp_all add: truthy_def Route_findByPk_None)
        with wf \<open>Bus_findByPk db (sreq_busId req) = Some bus\<close> ok None r(1)
        show ?thesis by (simp add: startLocationSharing_def Let_def)
      qed
    qed
  qed
qed

lemma startLocationSharing_first_start:
  fixes req :: start_request and r :: uuid and now :: real and lid :: uuid
  assumes wf: "sreq_validationErrors req = []" "sreq_busId req \<noteq> []"
    and bus: "Bus_findByPk db (sreq_busId req) = Some bus"
    and driver: "bus_driverId bus = Some (sreq_userId req)"
    and active: "bus_isActive bus"
    and norow: "find (\<lambda>l. live_busId l = sreq_busId req \<or> live_id l = lid)
                  (live_bus_locations db) = None"
    and route: "(if truthy (sreq_routeId req) then sreq_routeId req
                 else bus_currentRouteId bus) = Some r" "r \<noteq> []" "r \<in> set (routes db)"
  defines "location \<equiv>
             \<lparr>live_id = lid, live_busId = sreq_busId req, live_driverId = sreq_userId req,
              live_latitude = 0, live_longitude = 0, live_speedKmh = None, live_heading = None,
              live_accuracyMeters = None, live_isLocationSharing = True,
              live_currentRouteId = Some r, live_nextStopId = None,
              live_distanceToNextStop = None, live_etaToNextStop = None,
              live_tripStartedAt = Some now\<rparr>"
  shows "fst (startLocationSharing hub now tid lid db req) = StartedOk tid location"
    and "live_bus_locations (fst (snd (startLocationSharing hub now tid lid db req))) =
           live_bus_locations db @ [location]"
    and "trip_logs (fst (snd (startLocationSharing hub now tid lid db req))) =
           trip_logs db @
             [\<lparr>trip_id = tid, trip_busId = sreq_busId req, trip_driverId = sreq_userId req,
               trip_routeId = r, trip_startedAt = now, trip_endedAt = None,
               trip_totalDistanceKm = None, trip_totalDurationMinutes = None,
               trip_averageSpeedKmh = None, trip_status = Active\<rparr>]"
    and "LiveBusLocation_findByBusId (fst (snd (startLocationSharing hub now tid lid db req)))
           (sreq_busId req) = Some location"
    and "snd (snd (startLocationSharing hub now tid lid db req)) =
           emitToAll hub ''locationSharingStarted''
             (SharingStartedData (sreq_busId req) (sreq_userId req) tid)"
proof -
  have nobus: "find (\<lambda>l. live_busId l = sreq_busId req) (live_bus_locations db) = None"
    using norow by (auto simp: find_None_iff)
  have nosess: "LiveBusLocation_findByBusId db (sreq_busId req) = None"
    unfolding LiveBusLocation_findByBusId_def by (rule find_None_weaken [OF nobus])
  have rt: "truthy (Some r)" "Route_findByPk db r \<noteq> None"
    using route by (simp_all add: truthy_def Route_findByPk_None)
  have trip: "TripLog_create db tid (sreq_busId req) (sreq_userId req) (Some r) now =
      Inr (\<lparr>trip_id = tid, trip_busId = sreq_busId req, trip_driverId = sreq_userId req,
             trip_routeId = r, trip_startedAt = now, trip_endedAt = None,
             trip_totalDistanceKm = None, trip_totalDurationMinutes = None,
             trip_averageSpeedKmh = None, trip_status = Active\<rparr>,
           db\<lparr>trip_logs := trip_logs db @
             [\<lparr>trip_id = tid, trip_busId = sreq_busId req, trip_driverId = sreq_userId req,
               trip_routeId = r, trip_startedAt = now, trip_endedAt = None,
               trip_totalDistanceKm = None, trip_totalDurationMinutes = None,
               trip_averageSpeedKmh = None, trip_status = Active\<rparr>]\<rparr>)"
    using bus rt by (simp add: TripLog_create_def Let_def)
  have bus1: "Bus_findByPk (db\<lparr>trip_logs := ts\<rparr>) (sreq_busId req) = Some bus" for ts
    using bus by (simp add: Bus_findByPk_def)
  have rt1: "Route_findByPk (db\<lparr>trip_logs := ts\<rparr>) r \<noteq> None" for ts
    using rt by (simp add: Route_findByPk_def)
  have live: "LiveBusLocation_create (db\<lparr>trip_logs := ts\<rparr>) lid (sreq_busId req)
                (sreq_userId req) (Some r) now =
      Inr (location, db\<lparr>trip_logs := ts,
                         live_bus_locations := live_bus_locations db @ [location]\<rparr>)" for ts
    using norow bus1 [of ts] rt1 [of ts]
    by (simp add: LiveBusLocation_create_def Let_def location_def)
  have run: "startLocationSharing hub now tid lid db req =
      (StartedOk tid location,
       (if truthy (sreq_routeId req) \<and> sreq_routeId req \<noteq> bus_currentRouteId bus
        then Bus_save (db\<lparr>trip_logs := trip_logs db @
               [\<lparr>trip_id = tid, trip_busId = sreq_busId req, trip_driverId = sreq_userId req,
                 trip_routeId = r, trip_startedAt = now, trip_endedAt = None,
                 trip_totalDistanceKm = None, trip_totalDurationMinutes = None,
                 trip_averageSpeedKmh = None, trip_status = Active\<rparr>],
               live_bus_locations := live_bus_locations db @ [location]\<rparr>)
               (bus\<lparr>bus_currentRouteId := sreq_routeId req\<rparr>)
        else db\<lparr>trip_logs := trip_logs db @
               [\<lparr>trip_id = tid, trip_busId = sreq_busId req, trip_driverId = sreq_userId req,
                 trip_routeId = r, trip_startedAt = now, trip_endedAt = None,
                 trip_totalDistanceKm = None, trip_totalDurationMinutes = None,
                 trip_averageSpeedKmh = None, trip_status = Active\<rparr>],
               live_bus_locations := live_bus_locations db @ [location]\<rparr>),
       emitToAll hub ''locationSharingStarted''
         (SharingStartedData (sreq_busId req) (sreq_userId req) tid))"
    using wf bus driver active nosess route(1) rt
    by (simp add: startLocationSharing_def Let_def trip live)
  show "fst (startLocationSharing hub now tid lid db req) = StartedOk tid location"
    by (simp add: run)
  show lv: "live_bus_locations (fst (snd (startLocationSharing hub now tid lid db req))) =
           live_bus_locations db @ [location]"
    by (simp add: run Bus_save_def)
  show "trip_logs (fst (snd (startLocationSharing hub now tid lid db req))) =
           trip_logs db @
             [\<lparr>trip_id = tid, trip_busId = sreq_busId req, trip_driverId = sreq_userId req,
               trip_routeId = r, trip_startedAt = now, trip_endedAt = None,
               trip_totalDistanceKm = None, trip_totalDurationMinutes = None,
               trip_averageSpeedKmh = None, trip_status = Active\<rparr>]"
    by (simp add: run Bus_save_def)
  show "LiveBusLocation_findByBusId (fst (snd (startLocationSharing hub now tid lid db req)))
           (sreq_busId req) = Some location"
    using find_None_weaken [OF nobus, of live_isLocationSharing]
    by (simp add: LiveBusLocation_findByBusId_def lv find_append_last location_def)
  show "snd (snd (startLocationSharing hub now tid lid db req)) =
           emitToAll hub ''locationSharingStarted''
             (SharingStartedData (sreq_busId req) (sreq_userId req) tid)"
    by (simp add: run)
qed

text \<open>
  C1. The session of a bus cannot be started a second time. In the example session the
  first start succeeds and the stop succeeds; the bus is then active, assigned to the
  driver and without an active session. The driver's next start is answered 400
  \<open>Duplicate entry\<close>: the row that the stop left (sharing flag cleared) is not found
  by \<^verbatim>\<open>findByBusId\<close>, so the guard passes; the handler creates a trip and then a
  second row for the bus, which the unique index on \<^verbatim>\<open>bus_id\<close> rejects; the trip
  created just before stays in the table, active.
\<close>

theorem restart_after_stop_is_rejected:
  "fst (startLocationSharing demo_hub 1000 ''T1'' ''L1'' demo_db demo_start) =
     StartedOk ''T1''
       \<lparr>live_id = ''L1'', live_busId = ''B1'', live_driverId = ''D1'', live_latitude = 0,
        live_longitude = 0, live_speedKmh = None, live_heading = None,
        live_accuracyMeters = None, live_isLocationSharing = True,
        live_currentRouteId = Some ''R1'', live_nextStopId = None,
        live_distanceToNextStop = None, live_etaToNextStop = None,
        live_tripStartedAt = Some 1000\<rparr> \<and>
   fst (stopLocationSharing demo_hub 2000 demo_started demo_stop) = StoppedOk \<and>
   LiveBusLocation_findByBusId demo_stopped ''B1'' = None \<and>
   map bus_isActive (buses demo_stopped) = [True] \<and>
   map bus_driverId (buses demo_stopped) = [Some ''D1''] \<and>
   fst (startLocationSharing demo_hub 3000 ''T2'' ''L2'' demo_stopped demo_start) =
     Failure 400 ''Duplicate entry'' \<and>
   map live_isLocationSharing
     (live_bus_locations
        (fst (snd (startLocationSharing demo_hub 3000 ''T2'' ''L2'' demo_stopped demo_start)))) =
     [False] \<and>
   map trip_status
     (trip_logs
        (fst (snd (startLocationSharing demo_hub 3000 ''T2'' ''L2'' demo_stopped demo_start)))) =
     [Completed, Active]"
proof -
  have 2: "LiveBusLocation_findByBusId demo_stopped ''B1'' = None \<and>
           map bus_isActive (buses demo_stopped) = [True] \<and>
           map bus_driverId (buses demo_stopped) = [Some ''D1'']"
    by (simp add: demo_stopped_eq demo_db_def LiveBusLocation_findByBusId_def)
  have 3: "startLocationSharing demo_hub 3000 ''T2'' ''L2'' demo_stopped demo_start =
     (Failure 400 ''Duplicate entry'',
      demo_stopped\<lparr>trip_logs := trip_logs demo_stopped @
         [\<lparr>trip_id = ''T2'', trip_busId = ''B1'', trip_driverId = ''D1'',
           trip_routeId = ''R1'', trip_startedAt = 3000, trip_endedAt = None,
           trip_totalDistanceKm = None, trip_totalDurationMinutes = None,
           trip_averageSpeedKmh = None, trip_status = Active\<rparr>]\<rparr>, [])"
    by (simp add: startLocationSharing_def demo_stopped_eq demo_db_def demo_start_def orm_defs
        startLocationSharing_catch_def Let_def)
  have 5: "map trip_status
     (trip_logs
        (fst (snd (startLocationSharing demo_hub 3000 ''T2'' ''L2'' demo_stopped demo_start)))) =
     [Completed, Active]"
    by (simp add: 3) (simp add: demo_stopped_eq)
  have 6: "map live_isLocationSharing
     (live_bus_locations
        (fst (snd (startLocationSharing demo_hub 3000 ''T2'' ''L2'' demo_stopped demo_start)))) =
     [False]"
    by (simp add: 3) (simp add: demo_stopped_eq)
  from 2 3 5 6 demo_start_response demo_stop_response show ?thesis by simp
qed

subsection \<open>Position reports\<close>













lemma LiveBusLocation_updateLocation_history:
  "location_history (snd (LiveBusLocation_updateLocation now db newId busId v)) =
   location_history db"
  by (simp add: LiveBusLocation_updateLocation_def LiveBusLocation_upsert_def
      LiveBusLocation_save_def Let_def split: option.splits)

lemma LiveBusLocation_updateLocation_history_pair:
  "LiveBusLocation_updateLocation now db newId busId v = (l, db') \<Longrightarrow>
   location_history db' = location_history db"
  using LiveBusLocation_updateLocation_history [of now db newId busId v] by simp

text \<open>
  C6. No position report is appended to the history: \<^verbatim>\<open>updateLocation\<close> creates the
  history row with \<^verbatim>\<open>tripLogId: null\<close>, which the model \<^verbatim>\<open>LocationHistory\<close>
  (\<^verbatim>\<open>allowNull: false\<close>) rejects, so the handler ends in its \<^verbatim>\<open>catch\<close> with status
  500 after the live row is written. In the example session the first report is
  answered 500 and nothing is sent, the history stays empty, and the row holds the
  reported speed.
\<close>

theorem report_never_reaches_history:
  "location_history (fst (snd (updateLocation hub now newId db req))) = location_history db \<and>
   updateLocation demo_hub 2000 ''U1'' demo_started (demo_report 0 0 20) =
     (Failure 500 ''Internal server error'', demo_reported1, []) \<and>
   location_history demo_reported1 = [] \<and>
   map live_speedKmh (live_bus_locations demo_reported1) = [Some 20]"
proof -
  have gen: "location_history (fst (snd (updateLocation hub now newId db req))) =
             location_history db"
    by (auto simp: updateLocation_def LocationHistory_create_def Let_def
        split: option.splits prod.splits
        dest: LiveBusLocation_updateLocation_history_pair)
  have r1: "updateLocation demo_hub 2000 ''U1'' demo_started (demo_report 0 0 20) =
     (Failure 500 ''Internal server error'', demo_reported1, [])"
    by (simp add: demo_report1 demo_reported1_eq)
  have h: "location_history demo_reported1 = []"
    by (simp add: demo_reported1_eq demo_started_eq demo_db_def)
  have v: "map live_speedKmh (live_bus_locations demo_reported1) = [Some 20]"
    by (simp add: demo_reported1_eq)
  from gen r1 h v show ?thesis by simp
qed

subsection \<open>Events of the controller\<close>

lemma emitToAll_busSubscribers:
  "emitToAll (hub\<lparr>busSubscribers := m\<rparr>) event data = emitToAll hub event data"
  by (simp add: emitToAll_def)


lemma stopLocationSharing_deliveries:
  "snd (snd (stopLocationSharing hub now db req)) =
     (case fst (stopLocationSharing hub now db req) of
        StoppedOk \<Rightarrow>
          emitToAll hub ''locationSharingStopped''
            (SharingStoppedData (preq_busId req) (preq_userId req))
      | _ \<Rightarrow> [])"
  by (simp add: stopLocationSharing_def Let_def split: option.splits sum.splits)

lemma start_stop_ignore_busSubscribers:
  "startLocationSharing (hub\<lparr>busSubscribers := m\<rparr>) now tid lid db sreq =
     startLocationSharing hub now tid lid db sreq"
  "stopLocationSharing (hub\<lparr>busSubscribers := m\<rparr>) now db preq =
     stopLocationSharing hub now db preq"
  by (simp_all add: startLocationSharing_def stopLocationSharing_def emitToAll_busSubscribers
      Let_def split: option.splits sum.splits prod.splits)



end
